theory Spec2Isabelle
  imports Complex_Main
begin

section \<open>Snake game (examples/Snake/WS_Matrix.cpp)\<close>

text \<open>
  The game state is the four globals of \<^verbatim>\<open>WS_Matrix.cpp\<close>: the array
  \<^verbatim>\<open>snake[MAX_SNAKE_LENGTH]\<close>, \<^verbatim>\<open>snakeLength\<close>, \<^verbatim>\<open>food\<close> and
  \<^verbatim>\<open>gameOver\<close>. A \<^verbatim>\<open>Point\<close> holds two \<^verbatim>\<open>int8_t\<close> fields; they are
  integers here and every assignment of an arithmetic result to a field goes through
  \<open>int8\<close>, the conversion to eight signed bits. In the matrix \<open>x\<close> is the row and
  \<open>y\<close> the column.
\<close>

definition Matrix_Row :: int where
  "Matrix_Row = 8"

definition Matrix_Col :: int where
  "Matrix_Col = 8"

definition RGB_COUNT :: nat where
  "RGB_COUNT = 64"

definition MAX_SNAKE_LENGTH :: nat where
  "MAX_SNAKE_LENGTH = 64"

record Point =
  px :: int
  py :: int

record snake_state =
  snake :: "Point list"
  snakeLength :: nat
  food :: Point
  gameOver :: bool

definition int8 :: "int \<Rightarrow> int" where
  "int8 v = (v + 128) mod 256 - 128"

text \<open>The comparison \<^verbatim>\<open>a.x == b.x && a.y == b.y\<close> the source writes out each time.\<close>

definition samePoint :: "Point \<Rightarrow> Point \<Rightarrow> bool" where
  "samePoint a b = (px a = px b \<and> py a = py b)"

text \<open>
  \<^verbatim>\<open>random(0, Matrix_Row)\<close> and \<^verbatim>\<open>random(0, Matrix_Col)\<close> are read from a list of
  samples, one pair for each round of the loop of \<^verbatim>\<open>GenerateFood\<close>. The loop has no
  bound in the source: it ends at the first sample that is off the snake. The model returns
  \<open>None\<close> when the samples run out before that, and the rest of the samples otherwise.
\<close>

type_synonym rng = "(int \<times> int) list"

definition onSnake :: "snake_state \<Rightarrow> bool" where
  "onSnake s = list_ex (\<lambda>i. samePoint (snake s ! i) (food s)) [0..<snakeLength s]"

fun GenerateFood :: "rng \<Rightarrow> snake_state \<Rightarrow> (rng \<times> snake_state) option" where
  "GenerateFood [] s = None"
| "GenerateFood (r # rs) s =
     (let s1 = s\<lparr>food := \<lparr>px = int8 (fst r), py = int8 (snd r)\<rparr>\<rparr>
      in if onSnake s1 then GenerateFood rs s1 else Some (rs, s1))"

definition Snake_Init :: "rng \<Rightarrow> snake_state \<Rightarrow> (rng \<times> snake_state) option" where
  "Snake_Init rs s =
     (let s1 = s\<lparr>snakeLength := 3\<rparr>;
          s2 = s1\<lparr>snake := (snake s1)[0 := \<lparr>px = 4, py = 4\<rparr>]\<rparr>;
          s3 = s2\<lparr>snake := (snake s2)[1 := \<lparr>px = 3, py = 4\<rparr>]\<rparr>;
          s4 = s3\<lparr>snake := (snake s3)[2 := \<lparr>px = 2, py = 4\<rparr>]\<rparr>
      in case GenerateFood rs s4 of
           None \<Rightarrow> None
         | Some (rs', s5) \<Rightarrow> Some (rs', s5\<lparr>gameOver := False\<rparr>))"

definition GetSnakeLength :: "snake_state \<Rightarrow> nat" where
  "GetSnakeLength s = snakeLength s"

text \<open>The \<^verbatim>\<open>switch (direction)\<close> of \<^verbatim>\<open>MoveSnake\<close>; it has no default case.\<close>

definition stepHead :: "nat \<Rightarrow> Point \<Rightarrow> Point" where
  "stepHead direction h =
     (if direction = 0 then h\<lparr>px := int8 (px h - 1)\<rparr>
      else if direction = 1 then h\<lparr>py := int8 (py h + 1)\<rparr>
      else if direction = 2 then h\<lparr>px := int8 (px h + 1)\<rparr>
      else if direction = 3 then h\<lparr>py := int8 (py h - 1)\<rparr>
      else h)"

text \<open>The four wrap-around tests, in the order of the source.\<close>

definition wrapHead :: "Point \<Rightarrow> Point" where
  "wrapHead h =
     (let h1 = (if px h < 0 then h\<lparr>px := Matrix_Row - 1\<rparr> else h);
          h2 = (if px h1 \<ge> Matrix_Row then h1\<lparr>px := 0\<rparr> else h1);
          h3 = (if py h2 < 0 then h2\<lparr>py := Matrix_Col - 1\<rparr> else h2);
          h4 = (if py h3 \<ge> Matrix_Col then h3\<lparr>py := 0\<rparr> else h3)
      in h4)"

definition newHeadOf :: "nat \<Rightarrow> snake_state \<Rightarrow> Point" where
  "newHeadOf direction s = wrapHead (stepHead direction (snake s ! 0))"

text \<open>
  The loop \<^verbatim>\<open>for (i = n; i > 0; i--) snake[i] = snake[i - 1];\<close> started at \<open>n\<close>.
\<close>

fun shiftBody :: "nat \<Rightarrow> Point list \<Rightarrow> Point list" where
  "shiftBody 0 xs = xs"
| "shiftBody (Suc i) xs = shiftBody i (xs[Suc i := xs ! i])"

text \<open>The self-collision loop, from index 2.\<close>

definition hitsBody :: "snake_state \<Rightarrow> Point \<Rightarrow> bool" where
  "hitsBody s h = list_ex (\<lambda>i. samePoint (snake s ! i) h) [2..<snakeLength s]"

text \<open>
  \<^verbatim>\<open>MoveSnake\<close> returns its code (0 game over, 1 normal move, 2 food eaten), the
  samples left and the new state. \<^verbatim>\<open>GameOverAnimation\<close> only drives the LEDs and
  waits; it touches none of the four globals and is left out.
\<close>

definition MoveSnake :: "rng \<Rightarrow> nat \<Rightarrow> snake_state \<Rightarrow> (nat \<times> rng \<times> snake_state) option" where
  "MoveSnake rs direction s =
     (if gameOver s then Some (0, rs, s)
      else
        let newHead = newHeadOf direction s in
        if snakeLength s > 1 \<and> samePoint (snake s ! 1) newHead then Some (1, rs, s)
        else if hitsBody s newHead then Some (0, rs, s\<lparr>gameOver := True\<rparr>)
        else
          let foodEaten = samePoint newHead (food s) in
          if \<not> foodEaten then
            Some (1, rs, s\<lparr>snake := (shiftBody (snakeLength s - 1) (snake s))[0 := newHead]\<rparr>)
          else if snakeLength s < MAX_SNAKE_LENGTH then
            (case GenerateFood rs
                    (s\<lparr>snake := shiftBody (snakeLength s) (snake s),
                       snakeLength := snakeLength s + 1\<rparr>) of
               None \<Rightarrow> None
             | Some (rs', s1) \<Rightarrow> Some (2, rs', s1\<lparr>snake := (snake s1)[0 := newHead]\<rparr>))
          else Some (2, rs, s\<lparr>snake := (snake s)[0 := newHead]\<rparr>))"

text \<open>
  A caller that passes one direction after the other to \<^verbatim>\<open>MoveSnake\<close>, as the
  sketch's \<^verbatim>\<open>loop\<close> does, and collects the codes returned.
\<close>

fun MoveSnake_calls :: "rng \<Rightarrow> nat list \<Rightarrow> snake_state \<Rightarrow> (nat list \<times> rng \<times> snake_state) option" where
  "MoveSnake_calls rs [] s = Some ([], rs, s)"
| "MoveSnake_calls rs (d # ds) s =
     (case MoveSnake rs d s of
        None \<Rightarrow> None
      | Some (r, rs1, s1) \<Rightarrow>
          (case MoveSnake_calls rs1 ds s1 of
             None \<Rightarrow> None
           | Some (codes, rs2, s2) \<Rightarrow> Some (r # codes, rs2, s2)))"

text \<open>
  A state is well formed when the array has its \<^verbatim>\<open>MAX_SNAKE_LENGTH\<close> entries and the
  length counts no more than those; every index the source uses is then inside the array
  (with a longer snake the source would index past it, which the model does not follow).
  The cells of the snake are the first \<open>snakeLength\<close> entries.
\<close>

definition wellFormed :: "snake_state \<Rightarrow> bool" where
  "wellFormed s = (length (snake s) = MAX_SNAKE_LENGTH \<and> snakeLength s \<le> MAX_SNAKE_LENGTH)"

definition inMatrix :: "Point \<Rightarrow> bool" where
  "inMatrix p = (0 \<le> px p \<and> px p < Matrix_Row \<and> 0 \<le> py p \<and> py p < Matrix_Col)"

definition bodyInMatrix :: "snake_state \<Rightarrow> bool" where
  "bodyInMatrix s = list_all (\<lambda>i. inMatrix (snake s ! i)) [0..<snakeLength s]"

text \<open>
  The zero-initialised globals, and the state \<^verbatim>\<open>Snake_Init\<close> leaves when the first
  sample is the cell (6, 6).
\<close>

definition zeroSnake :: snake_state where
  "zeroSnake =
     \<lparr>snake = replicate 64 \<lparr>px = 0, py = 0\<rparr>, snakeLength = 3,
      food = \<lparr>px = 0, py = 0\<rparr>, gameOver = False\<rparr>"

definition startSnake :: snake_state where
  "startSnake =
     \<lparr>snake = \<lparr>px = 4, py = 4\<rparr> # \<lparr>px = 3, py = 4\<rparr> # \<lparr>px = 2, py = 4\<rparr> #
              replicate 61 \<lparr>px = 0, py = 0\<rparr>,
      snakeLength = 3, food = \<lparr>px = 6, py = 6\<rparr>, gameOver = False\<rparr>"

text \<open>
  The start position with the game over, with the food to the right of the head, and
  moved to the right edge of the matrix.
\<close>

definition overSnake :: snake_state where
  "overSnake = startSnake\<lparr>gameOver := True\<rparr>"

definition hungrySnake :: snake_state where
  "hungrySnake = startSnake\<lparr>food := \<lparr>px = 4, py = 5\<rparr>\<rparr>"

definition edgeSnake :: snake_state where
  "edgeSnake =
     \<lparr>snake = \<lparr>px = 4, py = 7\<rparr> # \<lparr>px = 4, py = 6\<rparr> # \<lparr>px = 4, py = 5\<rparr> #
              replicate 61 \<lparr>px = 0, py = 0\<rparr>,
      snakeLength = 3, food = \<lparr>px = 6, py = 6\<rparr>, gameOver = False\<rparr>"

text \<open>A snake of five segments whose head at (4, 4) has its fourth segment just below.\<close>

definition coilSnake :: snake_state where
  "coilSnake =
     \<lparr>snake = \<lparr>px = 4, py = 4\<rparr> # \<lparr>px = 4, py = 5\<rparr> # \<lparr>px = 5, py = 5\<rparr> #
              \<lparr>px = 5, py = 4\<rparr> # \<lparr>px = 6, py = 4\<rparr> # replicate 59 \<lparr>px = 0, py = 0\<rparr>,
      snakeLength = 5, food = \<lparr>px = 6, py = 6\<rparr>, gameOver = False\<rparr>"


text \<open>
  A game that fills the board. \<open>hamCells\<close> are the 61 cells the head visits after the
  start position: down column 4 to row 1, then seven times one cell to the right and seven
  cells down, over the edges. In \<open>fillSamples\<close> each food is the next cell of that way,
  so that every move eats; the last sample is the last cell itself, the only cell off the
  snake when the snake grows to 64. \<open>hamSnake\<close> is the full board the game ends in, the
  food under the head.
\<close>

definition hamCells :: "(int \<times> int) list" where
  "hamCells =
     [
      (5, 4), (6, 4), (7, 4), (0, 4), (1, 4), (1, 5), (2, 5), (3, 5),
      (4, 5), (5, 5), (6, 5), (7, 5), (0, 5), (0, 6), (1, 6), (2, 6),
      (3, 6), (4, 6), (5, 6), (6, 6), (7, 6), (7, 7), (0, 7), (1, 7),
      (2, 7), (3, 7), (4, 7), (5, 7), (6, 7), (6, 0), (7, 0), (0, 0),
      (1, 0), (2, 0), (3, 0), (4, 0), (5, 0), (5, 1), (6, 1), (7, 1),
      (0, 1), (1, 1), (2, 1), (3, 1), (4, 1), (4, 2), (5, 2), (6, 2),
      (7, 2), (0, 2), (1, 2), (2, 2), (3, 2), (3, 3), (4, 3), (5, 3),
      (6, 3), (7, 3), (0, 3), (1, 3), (2, 3)]"



definition hamSnake :: snake_state where
  "hamSnake =
     \<lparr>snake = map (\<lambda>(a, b). \<lparr>px = a, py = b\<rparr>) (rev hamCells @ [(4, 4), (3, 4), (2, 4)]),
      snakeLength = 64, food = \<lparr>px = 2, py = 3\<rparr>, gameOver = False\<rparr>"

text \<open>
  The move on a torus in the words of the specification: the head goes one cell in the
  direction and each axis is taken modulo its bound.
\<close>

definition torusMove :: "nat \<Rightarrow> Point \<Rightarrow> Point" where
  "torusMove direction h =
     \<lparr>px = (px h + (if direction = 0 then - 1 else if direction = 2 then 1 else 0)) mod Matrix_Row,
      py = (py h + (if direction = 1 then 1 else if direction = 3 then - 1 else 0)) mod Matrix_Col\<rparr>"

section \<open>Coordinate mapping (lib/MatrixUtil/MatrixUtil.h)\<close>

text \<open>
  \<^verbatim>\<open>MatrixUtil.h\<close> reads the panel from macros that the board profile
  \<^verbatim>\<open>config/BoardConfig.h\<close> defines; that header is not among the sources, so the
  macros are the fields of a record that every function using them takes. The arguments of
  \<^verbatim>\<open>MU_XY\<close> are \<^verbatim>\<open>uint8_t\<close> and its result \<^verbatim>\<open>uint16_t\<close>: \<open>u8\<close> and
  \<open>u16\<close> are the conversions, applied wherever the source stores an \<^verbatim>\<open>int\<close> result
  in such a variable.
\<close>

record PanelConfig =
  MATRIX_WIDTH :: int
  MATRIX_HEIGHT :: int
  PANEL_ROTATION :: int
  PANEL_FLIP_X :: bool
  PANEL_FLIP_Y :: bool
  PANEL_WIRING_SERPENTINE :: bool

definition u8 :: "int \<Rightarrow> int" where
  "u8 v = v mod 256"

definition u16 :: "int \<Rightarrow> int" where
  "u16 v = v mod 65536"

definition MU_XY :: "PanelConfig \<Rightarrow> int \<Rightarrow> int \<Rightarrow> int" where
  "MU_XY c x0 y0 =
     (let x1 = (if u8 x0 \<ge> MATRIX_WIDTH c then u8 (MATRIX_WIDTH c - 1) else u8 x0);
          y1 = (if u8 y0 \<ge> MATRIX_HEIGHT c then u8 (MATRIX_HEIGHT c - 1) else u8 y0);
          x2 = (if PANEL_ROTATION c = 90 then u8 (MATRIX_WIDTH c - 1 - y1)
                else if PANEL_ROTATION c = 180 then u8 (MATRIX_WIDTH c - 1 - x1)
                else if PANEL_ROTATION c = 270 then y1
                else x1);
          y2 = (if PANEL_ROTATION c = 90 then x1
                else if PANEL_ROTATION c = 180 then u8 (MATRIX_HEIGHT c - 1 - y1)
                else if PANEL_ROTATION c = 270 then u8 (MATRIX_HEIGHT c - 1 - x1)
                else y1);
          x3 = (if PANEL_FLIP_X c then u8 (MATRIX_WIDTH c - 1 - x2) else x2);
          y3 = (if PANEL_FLIP_Y c then u8 (MATRIX_HEIGHT c - 1 - y2) else y2)
      in if PANEL_WIRING_SERPENTINE c then
           (if odd y3 then u16 ((y3 * MATRIX_WIDTH c) + (MATRIX_WIDTH c - 1 - x3))
            else u16 ((y3 * MATRIX_WIDTH c) + x3))
         else u16 ((y3 * MATRIX_WIDTH c) + x3))"

text \<open>The cells of the panel, as pairs \<open>(x, y)\<close>, and the indices of its buffer.\<close>

definition panelCells :: "PanelConfig \<Rightarrow> (int \<times> int) set" where
  "panelCells c = {0..<MATRIX_WIDTH c} \<times> {0..<MATRIX_HEIGHT c}"

definition panelIndices :: "PanelConfig \<Rightarrow> int set" where
  "panelIndices c = {0..<MATRIX_WIDTH c * MATRIX_HEIGHT c}"

text \<open>
  Modelled from the spec: the board profile \<^verbatim>\<open>config/BoardConfig.h\<close> is missing from
  the sources, and the examples of the specification take \<open>W = 8\<close> and \<open>H = 8\<close>. The
  other fields are the defaults \<^verbatim>\<open>MatrixUtil.h\<close> gives the macros: no rotation, no
  flip, progressive wiring.
\<close>

definition panel8 :: PanelConfig where
  "panel8 =
     \<lparr>MATRIX_WIDTH = 8, MATRIX_HEIGHT = 8, PANEL_ROTATION = 0, PANEL_FLIP_X = False,
      PANEL_FLIP_Y = False, PANEL_WIRING_SERPENTINE = False\<rparr>"

text \<open>
  The mapping in the words of the specification (section 4.1), on pairs \<open>(x, y)\<close> and
  without the conversions to \<^verbatim>\<open>uint8_t\<close>: the rotation first, then the flips, then
  the wiring, then the row-major index.
\<close>

definition rotateCell :: "PanelConfig \<Rightarrow> int \<times> int \<Rightarrow> int \<times> int" where
  "rotateCell c p =
     (if PANEL_ROTATION c = 90 then (MATRIX_WIDTH c - 1 - snd p, fst p)
      else if PANEL_ROTATION c = 180 then (MATRIX_WIDTH c - 1 - fst p, MATRIX_HEIGHT c - 1 - snd p)
      else if PANEL_ROTATION c = 270 then (snd p, MATRIX_HEIGHT c - 1 - fst p)
      else p)"

definition flipCell :: "PanelConfig \<Rightarrow> int \<times> int \<Rightarrow> int \<times> int" where
  "flipCell c p =
     (if PANEL_FLIP_X c then MATRIX_WIDTH c - 1 - fst p else fst p,
      if PANEL_FLIP_Y c then MATRIX_HEIGHT c - 1 - snd p else snd p)"

definition wireCell :: "PanelConfig \<Rightarrow> int \<times> int \<Rightarrow> int \<times> int" where
  "wireCell c p =
     (if PANEL_WIRING_SERPENTINE c \<and> odd (snd p) then MATRIX_WIDTH c - 1 - fst p else fst p, snd p)"

definition rowMajor :: "PanelConfig \<Rightarrow> int \<times> int \<Rightarrow> int" where
  "rowMajor c p = snd p * MATRIX_WIDTH c + fst p"

definition specMap :: "PanelConfig \<Rightarrow> int \<times> int \<Rightarrow> int" where
  "specMap c p = rowMajor c (wireCell c (flipCell c (rotateCell c p)))"

text \<open>
  The panels the claims are about: the \<^verbatim>\<open>uint8_t\<close> arguments reach every cell, and
  the panel is square unless the rotation is 0 or 180 (the formulas for 90 and 270 keep the
  width and height of the panel before the rotation).
\<close>

definition fitsPanel :: "PanelConfig \<Rightarrow> bool" where
  "fitsPanel c =
     (0 < MATRIX_WIDTH c \<and> MATRIX_WIDTH c \<le> 256 \<and> 0 < MATRIX_HEIGHT c \<and> MATRIX_HEIGHT c \<le> 256 \<and>
      (MATRIX_WIDTH c = MATRIX_HEIGHT c \<or> (PANEL_ROTATION c \<noteq> 90 \<and> PANEL_ROTATION c \<noteq> 270)))"

text \<open>
  The 8 by 8 panel turned by 90 degrees, flipped on both axes and wired as a serpentine,
  and a panel of 4 by 2 turned by 90 degrees.
\<close>

definition panel8turned :: PanelConfig where
  "panel8turned =
     \<lparr>MATRIX_WIDTH = 8, MATRIX_HEIGHT = 8, PANEL_ROTATION = 90, PANEL_FLIP_X = True,
      PANEL_FLIP_Y = True, PANEL_WIRING_SERPENTINE = True\<rparr>"

definition panel4x2 :: PanelConfig where
  "panel4x2 =
     \<lparr>MATRIX_WIDTH = 4, MATRIX_HEIGHT = 2, PANEL_ROTATION = 90, PANEL_FLIP_X = False,
      PANEL_FLIP_Y = False, PANEL_WIRING_SERPENTINE = False\<rparr>"

section \<open>Falling stars (examples/FallingStars/src/main.cpp)\<close>

text \<open>
  A particle's \<^verbatim>\<open>float\<close> fields are real numbers here and the gravity constant
  \<^verbatim>\<open>0.3\<close> is the fraction 3/10: rounding is not modelled. A particle falling from
  row 0 visits the same rows in both arithmetics down to row 35 (the first difference is
  at the fifteenth pass, row 36 here and row 35 in single precision), so on the panel of 8
  rows the model follows the source. \<open>toInt\<close> is the cast
  \<^verbatim>\<open>(int)\<close>, which drops the fraction. The grid is a function of the two indices; the
  source's array has the cells \<open>panelCells\<close>. A colour is its three channels.
\<close>

definition MAX_PARTICLES :: nat where
  "MAX_PARTICLES = 12"

type_synonym CRGB = "nat \<times> nat \<times> nat"

record Particle =
  part_x :: real
  part_y :: real
  vy :: real
  color :: CRGB
  active :: bool

record stars_state =
  particles :: "Particle list"
  grid :: "int \<Rightarrow> int \<Rightarrow> nat"

definition toInt :: "real \<Rightarrow> int" where
  "toInt r = (if 0 \<le> r then \<lfloor>r\<rfloor> else \<lceil>r\<rceil>)"

text \<open>The two runLoop of the sketch's start-up function that concern the simulator.\<close>

definition stars_setup :: "PanelConfig \<Rightarrow> stars_state \<Rightarrow> stars_state" where
  "stars_setup c s =
     \<lparr>particles = map (\<lambda>p. p\<lparr>active := False\<rparr>) (particles s),
      grid = (\<lambda>x y. if (x, y) \<in> panelCells c then 0 else grid s x y)\<rparr>"

text \<open>
  The \<^verbatim>\<open>switch (colorChoice)\<close> of \<^verbatim>\<open>spawnParticle\<close>; \<open>old\<close> is the colour the
  slot holds, kept when no case matches.
\<close>

definition pickColor :: "nat \<Rightarrow> CRGB \<Rightarrow> CRGB" where
  "pickColor colorChoice old =
     (if colorChoice = 0 then (255, 0, 0)
      else if colorChoice = 1 then (0, 255, 0)
      else if colorChoice = 2 then (0, 0, 255)
      else if colorChoice = 3 then (255, 255, 0)
      else if colorChoice = 4 then (255, 0, 255)
      else if colorChoice = 5 then (0, 255, 255)
      else old)"

text \<open>
  \<^verbatim>\<open>spawnParticle\<close> takes the first slot that is not active. \<open>rx\<close> is the value of
  \<^verbatim>\<open>random(0, MATRIX_WIDTH)\<close> and \<open>colorChoice\<close> that of \<^verbatim>\<open>random(0, 6)\<close>.
\<close>

definition spawnParticle :: "int \<Rightarrow> nat \<Rightarrow> stars_state \<Rightarrow> stars_state" where
  "spawnParticle rx colorChoice s =
     (case find (\<lambda>i. \<not> active (particles s ! i)) [0..<MAX_PARTICLES] of
        None \<Rightarrow> s
      | Some i \<Rightarrow>
          s\<lparr>particles := (particles s)[i :=
               \<lparr>part_x = of_int rx, part_y = 0, vy = 0,
                color = pickColor colorChoice (color (particles s ! i)), active = True\<rparr>]\<rparr>)"

text \<open>The body of the physics loop for slot \<open>i\<close>, and the loop.\<close>

definition settle :: "int \<Rightarrow> int \<Rightarrow> nat \<Rightarrow> stars_state \<Rightarrow> stars_state" where
  "settle ix iy i s =
     s\<lparr>grid := (grid s)(ix := (grid s ix)(iy := i + 1)),
       particles := (particles s)[i := (particles s ! i)\<lparr>active := False\<rparr>]\<rparr>"

definition updateParticle :: "PanelConfig \<Rightarrow> nat \<Rightarrow> stars_state \<Rightarrow> stars_state" where
  "updateParticle c i s =
     (if active (particles s ! i) then
        let p1 = (particles s ! i)\<lparr>vy := vy (particles s ! i) + 3 / 10\<rparr>;
            p2 = p1\<lparr>part_y := part_y p1 + vy p1\<rparr>;
            s1 = s\<lparr>particles := (particles s)[i := p2]\<rparr>;
            ix = toInt (part_x p2);
            iy = toInt (part_y p2)
        in if iy \<ge> MATRIX_HEIGHT c - 1 then settle ix (MATRIX_HEIGHT c - 1) i s1
           else if iy \<ge> 0 \<and> iy < MATRIX_HEIGHT c - 1 then
             (if grid s1 ix (iy + 1) \<noteq> 0 then settle ix iy i s1 else s1)
           else s1
      else s)"

definition physics :: "PanelConfig \<Rightarrow> stars_state \<Rightarrow> stars_state" where
  "physics c s = fold (updateParticle c) [0..<MAX_PARTICLES] s"

text \<open>
  The colour the pass "Draw settled particles" stores for the cell \<open>(x, y)\<close> when the
  cell is not empty: that of the slot \<^verbatim>\<open>grid[x][y] - 1\<close>. Rendering writes the LED
  buffer only, so it changes neither the particles nor the grid.
\<close>

definition settledColor :: "stars_state \<Rightarrow> int \<Rightarrow> int \<Rightarrow> CRGB" where
  "settledColor s x y = color (particles s ! nat (u8 (int (grid s x y) - 1)))"

text \<open>
  One pass of \<^verbatim>\<open>loop\<close> on the simulator: \<open>r100\<close> is the value of
  \<^verbatim>\<open>random(0, 100)\<close>.
\<close>

definition loop :: "PanelConfig \<Rightarrow> int \<Rightarrow> int \<Rightarrow> nat \<Rightarrow> stars_state \<Rightarrow> stars_state" where
  "loop c r100 rx colorChoice s =
     physics c (if r100 < 30 then spawnParticle rx colorChoice s else s)"

text \<open>
  The states the simulator reaches: the start-up on a pool of \<^verbatim>\<open>MAX_PARTICLES\<close>
  slots, then spawns (with the values \<^verbatim>\<open>random\<close> can return) and physics passes in
  any order.
\<close>

inductive reachable :: "PanelConfig \<Rightarrow> stars_state \<Rightarrow> bool" for c :: PanelConfig where
  reach_setup: "length (particles s) = MAX_PARTICLES \<Longrightarrow> reachable c (stars_setup c s)"
| reach_spawn: "reachable c s \<Longrightarrow> 0 \<le> rx \<Longrightarrow> rx < MATRIX_WIDTH c \<Longrightarrow> colorChoice < 6 \<Longrightarrow>
                reachable c (spawnParticle rx colorChoice s)"
| reach_physics: "reachable c s \<Longrightarrow> reachable c (physics c s)"

text \<open>
  The invariant of the settled grid as the data model words it: a cell that is not empty
  names a slot of the pool, and that slot is not active.
\<close>

definition settledInactive :: "PanelConfig \<Rightarrow> stars_state \<Rightarrow> bool" where
  "settledInactive c s =
     (\<forall>(x, y) \<in> panelCells c. grid s x y \<noteq> 0 \<longrightarrow>
        grid s x y \<le> MAX_PARTICLES \<and> \<not> active (particles s ! (grid s x y - 1)))"

text \<open>
  Two weaker facts about the grid and the pool: no cell of the panel holds more than
  \<^verbatim>\<open>MAX_PARTICLES\<close>, and every active particle stands in a column of the panel.
\<close>

definition idsInPool :: "PanelConfig \<Rightarrow> stars_state \<Rightarrow> bool" where
  "idsInPool c s = (\<forall>(x, y) \<in> panelCells c. grid s x y \<le> MAX_PARTICLES)"

definition columnsInPanel :: "PanelConfig \<Rightarrow> stars_state \<Rightarrow> bool" where
  "columnsInPanel c s =
     (\<forall>i < length (particles s). active (particles s ! i) \<longrightarrow>
        0 \<le> toInt (part_x (particles s ! i)) \<and> toInt (part_x (particles s ! i)) < MATRIX_WIDTH c)"

text \<open>
  Passes of \<^verbatim>\<open>loop\<close> one after the other, each with its three values of
  \<^verbatim>\<open>random\<close>; the values are valid when the column is one of the panel and the colour
  choice is below 6.
\<close>

fun runLoop :: "PanelConfig \<Rightarrow> (int \<times> int \<times> nat) list \<Rightarrow> stars_state \<Rightarrow> stars_state" where
  "runLoop c [] s = s"
| "runLoop c ((r100, rx, colorChoice) # rest) s = runLoop c rest (loop c r100 rx colorChoice s)"

definition validDraws :: "PanelConfig \<Rightarrow> (int \<times> int \<times> nat) list \<Rightarrow> bool" where
  "validDraws c run =
     list_all (\<lambda>(r100, rx, colorChoice). 0 \<le> rx \<and> rx < MATRIX_WIDTH c \<and> colorChoice < 6) run"

text \<open>
  The zero-initialised globals of the sketch, the state after start-up on the 8 by 8
  panel, and two runs. In \<open>settleRun\<close> the first pass spawns a red particle in column 3
  and six passes without a spawn follow; the particle comes to rest on the bottom row in the
  seventh pass. In \<open>stackRun\<close> the first three passes each spawn a particle in column 3
  and four passes without a spawn follow.
\<close>

definition zeroStars :: stars_state where
  "zeroStars =
     \<lparr>particles = replicate 12 \<lparr>part_x = 0, part_y = 0, vy = 0, color = (0, 0, 0), active = False\<rparr>,
      grid = (\<lambda>x y. 0)\<rparr>"

definition startStars :: stars_state where
  "startStars = stars_setup panel8 zeroStars"

definition settleRun :: "(int \<times> int \<times> nat) list" where
  "settleRun =
     [(0, 3, 0), (99, 0, 0), (99, 0, 0), (99, 0, 0), (99, 0, 0), (99, 0, 0), (99, 0, 0)]"

definition stackRun :: "(int \<times> int \<times> nat) list" where
  "stackRun =
     [(0, 3, 0), (0, 3, 1), (0, 3, 2), (99, 0, 0), (99, 0, 0), (99, 0, 0), (99, 0, 0)]"

section \<open>Properties of the snake game\<close>

subsection \<open>Auxiliary facts\<close>

lemma GenerateFood_frame:
  "GenerateFood rs s = Some (rs', s') \<Longrightarrow>
     snake s' = snake s \<and> snakeLength s' = snakeLength s \<and> gameOver s' = gameOver s"
  by (induction rs arbitrary: s) (auto simp: Let_def split: if_splits)

lemma GenerateFood_offSnake:
  "GenerateFood rs s = Some (rs', s') \<Longrightarrow> \<not> onSnake s'"
  by (induction rs arbitrary: s) (auto simp: Let_def split: if_splits)

lemma GenerateFood_returns:
  "list_ex (\<lambda>r. \<not> onSnake (s\<lparr>food := \<lparr>px = int8 (fst r), py = int8 (snd r)\<rparr>\<rparr>)) rs \<Longrightarrow>
   \<exists>res. GenerateFood rs s = Some res"
proof (induction rs arbitrary: s)
  case Nil
  then show ?case by simp
next
  case (Cons r rs)
  show ?case
  proof (cases "onSnake (s\<lparr>food := \<lparr>px = int8 (fst r), py = int8 (snd r)\<rparr>\<rparr>)")
    case True
    with Cons.prems
    have "list_ex (\<lambda>q. \<not> onSnake (s\<lparr>food := \<lparr>px = int8 (fst q), py = int8 (snd q)\<rparr>\<rparr>)) rs"
      by simp
    then have "list_ex (\<lambda>q. \<not> onSnake (s\<lparr>food := \<lparr>px = int8 (fst r), py = int8 (snd r)\<rparr>\<rparr>
        \<lparr>food := \<lparr>px = int8 (fst q), py = int8 (snd q)\<rparr>\<rparr>)) rs"
      by simp
    from Cons.IH [OF this] True show ?thesis
      by (simp add: Let_def)
  next
    case False
    then show ?thesis
      by (simp add: Let_def)
  qed
qed

lemma MoveSnake_returns:
  assumes "gameOver s \<or> \<not> samePoint (newHeadOf direction s) (food s) \<or>
      MAX_SNAKE_LENGTH \<le> snakeLength s \<or>
      list_ex (\<lambda>r. \<not> onSnake
        (s\<lparr>snake := shiftBody (snakeLength s) (snake s), snakeLength := snakeLength s + 1,
           food := \<lparr>px = int8 (fst r), py = int8 (snd r)\<rparr>\<rparr>)) rs"
  shows "\<exists>res. MoveSnake rs direction s = Some res"
proof (cases "gameOver s \<or> \<not> samePoint (newHeadOf direction s) (food s) \<or>
    MAX_SNAKE_LENGTH \<le> snakeLength s")
  case True
  then show ?thesis
    by (auto simp: MoveSnake_def Let_def)
next
  case False
  with assms have "list_ex (\<lambda>r. \<not> onSnake
        (s\<lparr>snake := shiftBody (snakeLength s) (snake s), snakeLength := snakeLength s + 1\<rparr>
          \<lparr>food := \<lparr>px = int8 (fst r), py = int8 (snd r)\<rparr>\<rparr>)) rs"
    by simp
  then obtain res where "GenerateFood rs
      (s\<lparr>snake := shiftBody (snakeLength s) (snake s), snakeLength := snakeLength s + 1\<rparr>) =
      Some res"
    using GenerateFood_returns by blast
  then show ?thesis
    by (cases res) (auto simp: MoveSnake_def Let_def)
qed

lemma length_shiftBody [simp]: "length (shiftBody n xs) = length xs"
  by (induction n arbitrary: xs) auto

lemma nth_shiftBody:
  "n < length xs \<Longrightarrow> j < length xs \<Longrightarrow>
   shiftBody n xs ! j = (if j = 0 \<or> n < j then xs ! j else xs ! (j - 1))"
proof (induction n arbitrary: xs j)
  case 0
  then show ?case by simp
next
  case (Suc n)
  have "j = Suc n \<or> j < Suc n \<or> Suc n < j" by arith
  with Suc show ?case
    by (auto simp: nth_list_update)
qed

lemma inMatrix_wrapHead: "inMatrix (wrapHead h)"
  by (simp add: wrapHead_def inMatrix_def Matrix_Row_def Matrix_Col_def Let_def)

lemma int8_small: "- 128 \<le> v \<Longrightarrow> v < 128 \<Longrightarrow> int8 v = v"
  by (simp add: int8_def)

lemma mod8_dec: "0 \<le> v \<Longrightarrow> v < 8 \<Longrightarrow> (v - 1) mod 8 = (if v = 0 then 7 else v - 1)"
  for v :: int
  by auto

lemma mod8_inc: "0 \<le> v \<Longrightarrow> v < 8 \<Longrightarrow> (v + 1) mod 8 = (if v = 7 then 0 else v + 1)"
  for v :: int
  by auto

lemma wrap_is_torus: "inMatrix h \<Longrightarrow> wrapHead (stepHead d h) = torusMove d h"
  by (cases h)
    (auto simp add: inMatrix_def wrapHead_def stepHead_def torusMove_def Matrix_Row_def
      Matrix_Col_def Let_def int8_small mod8_dec mod8_inc)

lemma bodyInMatrix_iff: "bodyInMatrix s = (\<forall>i<snakeLength s. inMatrix (snake s ! i))"
  by (auto simp add: bodyInMatrix_def list_all_iff)

lemma Snake_Init_start: "Snake_Init [(6, 6)] overSnake = Some ([], startSnake)"
  by code_simp

subsection \<open>The game-over latch\<close>

text \<open>
  Claim C9. Once \<open>gameOver\<close> is set, \<open>MoveSnake\<close> returns 0 for every direction and
  leaves the samples and the whole state (body, length, food, \<open>gameOver\<close>) as they were;
  so does any number of further calls, each returning 0. Only \<open>Snake_Init\<close> clears the
  flag: whenever it returns, \<open>gameOver\<close> is false.
\<close>

theorem MoveSnake_gameOver_latch:
  assumes "gameOver s"
  shows "MoveSnake rs direction s = Some (0, rs, s) \<and>
         MoveSnake_calls rs ds s = Some (replicate (length ds) 0, rs, s) \<and>
         (\<forall>rs1 rs2 s2. Snake_Init rs1 s = Some (rs2, s2) \<longrightarrow> \<not> gameOver s2)"
proof -
  have one: "MoveSnake rs d s = Some (0, rs, s)" for d
    using assms by (simp add: MoveSnake_def)
  have many: "MoveSnake_calls rs ds s = Some (replicate (length ds) 0, rs, s)"
    by (induction ds) (simp_all add: one)
  have init: "\<not> gameOver s2" if "Snake_Init rs1 s = Some (rs2, s2)" for rs1 rs2 s2
    using that by (auto simp: Snake_Init_def Let_def split: option.splits)
  from one many init show ?thesis by blast
qed

theorem MoveSnake_gameOver_latch_witness:
  "MoveSnake [] 1 overSnake = Some (0, [], overSnake) \<and>
   MoveSnake_calls [] [0, 1, 2, 3] overSnake = Some ([0, 0, 0, 0], [], overSnake) \<and>
   Snake_Init [(6, 6)] overSnake = Some ([], startSnake) \<and> \<not> gameOver startSnake"
proof -
  have over: "gameOver overSnake"
    by (simp add: overSnake_def)
  have "replicate (length [0, 1, 2, 3 :: nat]) (0 :: nat) = [0, 0, 0, 0]"
    by (simp add: eval_nat_numeral)
  with MoveSnake_gameOver_latch [OF over, where rs = "[]" and direction = 1 and ds = "[0, 1, 2, 3]"]
    Snake_Init_start
  show ?thesis by auto
qed

subsection \<open>The reversal guard\<close>

text \<open>
  Claim C5. In a game that is not over, with more than one segment, a move whose new head
  (after the wrap) is the second segment returns 1 and changes nothing: the body, the
  length, the food and \<open>gameOver\<close> are those of the state before, and no sample is used.
\<close>

theorem MoveSnake_reversal_noop:
  assumes "\<not> gameOver s"
    and "1 < snakeLength s"
    and "samePoint (newHeadOf direction s) (snake s ! 1)"
  shows "MoveSnake rs direction s = Some (1, rs, s)"
proof -
  from assms(3) have "samePoint (snake s ! 1) (newHeadOf direction s)"
    by (auto simp: samePoint_def)
  with assms(1,2) show ?thesis
    by (simp add: MoveSnake_def)
qed

theorem MoveSnake_reversal_noop_witness:
  "\<not> gameOver startSnake \<and> 1 < snakeLength startSnake \<and>
   samePoint (newHeadOf 0 startSnake) (snake startSnake ! 1) \<and>
   MoveSnake [] 0 startSnake = Some (1, [], startSnake)"
proof -
  have a: "\<not> gameOver startSnake"
    by (simp add: startSnake_def)
  have b: "1 < snakeLength startSnake"
    by (simp add: startSnake_def)
  have c: "samePoint (newHeadOf 0 startSnake) (snake startSnake ! 1)"
    by code_simp
  from a b c MoveSnake_reversal_noop [OF a b c, of "[]"] show ?thesis
    by simp
qed

subsection \<open>Return codes\<close>

text \<open>
  Claim C10. Whenever \<open>MoveSnake\<close> returns, its code is 0, 1 or 2, and the code is 0
  exactly when \<open>gameOver\<close> is set in the state it leaves; that is the case exactly when the
  game was over on entry or this call found a self-collision (the reversal guard not having
  returned first). The only call that does not return is one that eats below capacity and
  whose samples all fall on the snake.
\<close>

theorem MoveSnake_code_and_gameOver:
  "case MoveSnake rs direction s of
     None \<Rightarrow>
       \<not> gameOver s \<and> samePoint (newHeadOf direction s) (food s) \<and>
       snakeLength s < MAX_SNAKE_LENGTH
   | Some (r, rs', s') \<Rightarrow>
       (r = 0 \<or> r = 1 \<or> r = 2) \<and> (r = 0) = gameOver s' \<and>
       gameOver s' =
         (gameOver s \<or>
          hitsBody s (newHeadOf direction s) \<and>
          \<not> (1 < snakeLength s \<and> samePoint (snake s ! 1) (newHeadOf direction s)))"
proof (cases "gameOver s")
  case True
  then show ?thesis
    by (simp add: MoveSnake_def)
next
  case False
  then show ?thesis
    by (auto simp add: MoveSnake_def Let_def split: option.splits dest: GenerateFood_frame)
qed

theorem MoveSnake_code_and_gameOver_witness:
  "MoveSnake [] 2 coilSnake = Some (0, [], coilSnake\<lparr>gameOver := True\<rparr>) \<and>
   gameOver (coilSnake\<lparr>gameOver := True\<rparr>) \<and> hitsBody coilSnake (newHeadOf 2 coilSnake)"
proof -
  have run: "MoveSnake [] 2 coilSnake = Some (0, [], coilSnake\<lparr>gameOver := True\<rparr>)"
    by code_simp
  have "\<not> gameOver coilSnake"
    by (simp add: coilSnake_def)
  with run MoveSnake_code_and_gameOver [where rs = "[]" and direction = 2 and s = coilSnake] show ?thesis
    by simp
qed

subsection \<open>Length of the snake\<close>

text \<open>
  Claim C6. A call of \<open>MoveSnake\<close> that returns leaves the length reported by
  \<open>GetSnakeLength\<close> as it was, except when it returns 2 (the new head is the food) with
  the length below \<open>MAX_SNAKE_LENGTH\<close>: then the length is one more. This holds for every
  direction and every state.
\<close>

theorem MoveSnake_length:
  assumes "MoveSnake rs direction s = Some (r, rs', s')"
  shows "GetSnakeLength s' =
           (if r = 2 \<and> GetSnakeLength s < MAX_SNAKE_LENGTH then GetSnakeLength s + 1
            else GetSnakeLength s) \<and>
         (r = 2 \<longrightarrow> samePoint (newHeadOf direction s) (food s))"
proof (cases "gameOver s")
  case True
  with assms show ?thesis
    by (auto simp add: MoveSnake_def GetSnakeLength_def)
next
  case False
  with assms show ?thesis
    by (auto simp add: MoveSnake_def GetSnakeLength_def Let_def
        split: if_splits option.splits dest: GenerateFood_frame)
qed

theorem MoveSnake_length_witness:
  "MoveSnake [(4, 4), (6, 6)] 1 hungrySnake =
     Some (2, [],
       \<lparr>snake = \<lparr>px = 4, py = 5\<rparr> # \<lparr>px = 4, py = 4\<rparr> # \<lparr>px = 3, py = 4\<rparr> #
                \<lparr>px = 2, py = 4\<rparr> # replicate 60 \<lparr>px = 0, py = 0\<rparr>,
        snakeLength = 4, food = \<lparr>px = 6, py = 6\<rparr>, gameOver = False\<rparr>) \<and>
   GetSnakeLength hungrySnake = 3 \<and>
   GetSnakeLength
     \<lparr>snake = \<lparr>px = 4, py = 5\<rparr> # \<lparr>px = 4, py = 4\<rparr> # \<lparr>px = 3, py = 4\<rparr> #
              \<lparr>px = 2, py = 4\<rparr> # replicate 60 \<lparr>px = 0, py = 0\<rparr>,
      snakeLength = 4, food = \<lparr>px = 6, py = 6\<rparr>, gameOver = False\<rparr> = 3 + 1 \<and>
   samePoint (newHeadOf 1 hungrySnake) (food hungrySnake)"
proof -
  have run: "MoveSnake [(4, 4), (6, 6)] 1 hungrySnake =
     Some (2, [],
       \<lparr>snake = \<lparr>px = 4, py = 5\<rparr> # \<lparr>px = 4, py = 4\<rparr> # \<lparr>px = 3, py = 4\<rparr> #
                \<lparr>px = 2, py = 4\<rparr> # replicate 60 \<lparr>px = 0, py = 0\<rparr>,
        snakeLength = 4, food = \<lparr>px = 6, py = 6\<rparr>, gameOver = False\<rparr>)"
    by code_simp
  have len: "GetSnakeLength hungrySnake = 3"
    by code_simp
  have cap: "GetSnakeLength hungrySnake < MAX_SNAKE_LENGTH"
    by code_simp
  from MoveSnake_length [OF run] run len cap show ?thesis
    by simp
qed

subsection \<open>The wrap at the edges\<close>

text \<open>
  Claim C8. From a well-formed state whose segments all lie in
  \<open>[0, Matrix_Row) \<times> [0, Matrix_Col)\<close>, every call of \<open>MoveSnake\<close> that returns, for
  any direction, leaves a state whose segments all lie there too; and the new head it
  computes from a head in the matrix is the head moved on the torus: each axis modulo its
  bound.
\<close>

theorem MoveSnake_body_in_matrix:
  assumes "wellFormed s"
    and "bodyInMatrix s"
    and "MoveSnake rs direction s = Some (r, rs', s')"
  shows "bodyInMatrix s' \<and> wellFormed s' \<and>
         (0 < snakeLength s \<longrightarrow> newHeadOf direction s = torusMove direction (snake s ! 0))"
proof -
  have "bodyInMatrix s' \<and> wellFormed s'"
    using assms
    by (auto simp add: MoveSnake_def Let_def wellFormed_def bodyInMatrix_iff newHeadOf_def
        inMatrix_wrapHead nth_list_update nth_shiftBody
        split: if_splits option.splits dest!: GenerateFood_frame)
  moreover have "newHeadOf direction s = torusMove direction (snake s ! 0)"
    if "0 < snakeLength s"
    using that assms(2) by (simp add: newHeadOf_def wrap_is_torus bodyInMatrix_iff)
  ultimately show ?thesis by blast
qed

theorem MoveSnake_body_in_matrix_witness:
  "wellFormed edgeSnake \<and> bodyInMatrix edgeSnake \<and>
   MoveSnake [] 1 edgeSnake =
     Some (1, [],
       edgeSnake\<lparr>snake := \<lparr>px = 4, py = 0\<rparr> # \<lparr>px = 4, py = 7\<rparr> # \<lparr>px = 4, py = 6\<rparr> #
                            replicate 61 \<lparr>px = 0, py = 0\<rparr>\<rparr>) \<and>
   bodyInMatrix
     (edgeSnake\<lparr>snake := \<lparr>px = 4, py = 0\<rparr> # \<lparr>px = 4, py = 7\<rparr> # \<lparr>px = 4, py = 6\<rparr> #
                          replicate 61 \<lparr>px = 0, py = 0\<rparr>\<rparr>) \<and>
   newHeadOf 1 edgeSnake = torusMove 1 (snake edgeSnake ! 0) \<and>
   torusMove 1 (snake edgeSnake ! 0) = \<lparr>px = 4, py = 0\<rparr>"
proof -
  have wf: "wellFormed edgeSnake"
    by code_simp
  have body: "bodyInMatrix edgeSnake"
    by code_simp
  have run: "MoveSnake [] 1 edgeSnake =
     Some (1, [],
       edgeSnake\<lparr>snake := \<lparr>px = 4, py = 0\<rparr> # \<lparr>px = 4, py = 7\<rparr> # \<lparr>px = 4, py = 6\<rparr> #
                            replicate 61 \<lparr>px = 0, py = 0\<rparr>\<rparr>)"
    by code_simp
  have len: "0 < snakeLength edgeSnake"
    by (simp add: edgeSnake_def)
  have head: "torusMove 1 (snake edgeSnake ! 0) = \<lparr>px = 4, py = 0\<rparr>"
    by code_simp
  from MoveSnake_body_in_matrix [OF wf body run] wf body run len head show ?thesis
    by simp
qed

subsection \<open>A direction outside 0..3\<close>

text \<open>
  Claim C2 says that a direction outside 0..3 returns 1 and leaves the whole state
  unchanged. The \<^verbatim>\<open>switch\<close> has no default case, so the new head is the head itself
  and the call goes on as a move: from the start position, direction 4 returns 1 but shifts
  the body, so that the head's cell is held twice and the tail cell (2, 4) is lost. The
  length, the food and \<open>gameOver\<close> stay as they were.
\<close>

theorem MoveSnake_direction_4_shifts_body:
  "MoveSnake [] 4 startSnake =
     Some (1, [],
       startSnake\<lparr>snake := \<lparr>px = 4, py = 4\<rparr> # \<lparr>px = 4, py = 4\<rparr> # \<lparr>px = 3, py = 4\<rparr> #
                             replicate 61 \<lparr>px = 0, py = 0\<rparr>\<rparr>) \<and>
   snake startSnake =
     \<lparr>px = 4, py = 4\<rparr> # \<lparr>px = 3, py = 4\<rparr> # \<lparr>px = 2, py = 4\<rparr> #
       replicate 61 \<lparr>px = 0, py = 0\<rparr> \<and>
   Snake_Init [(6, 6)] zeroSnake = Some ([], startSnake)"
proof -
  have run: "MoveSnake [] 4 startSnake =
     Some (1, [],
       startSnake\<lparr>snake := \<lparr>px = 4, py = 4\<rparr> # \<lparr>px = 4, py = 4\<rparr> # \<lparr>px = 3, py = 4\<rparr> #
                             replicate 61 \<lparr>px = 0, py = 0\<rparr>\<rparr>)"
    by code_simp
  have init: "Snake_Init [(6, 6)] zeroSnake = Some ([], startSnake)"
    by code_simp
  from run init show ?thesis
    by (simp add: startSnake_def)
qed

subsection \<open>Eating at capacity\<close>


lemma hamSnake_full:
  "wellFormed hamSnake \<and> bodyInMatrix hamSnake \<and> distinct (snake hamSnake) \<and>
   length (snake hamSnake) = 64"
  by code_simp

lemma hamSnake_directions:
  "MoveSnake [] 0 hamSnake = Some (1, [], hamSnake) \<and>
   MoveSnake [] 1 hamSnake = Some (0, [], hamSnake\<lparr>gameOver := True\<rparr>) \<and>
   MoveSnake [] 2 hamSnake = Some (0, [], hamSnake\<lparr>gameOver := True\<rparr>) \<and>
   MoveSnake [] 3 hamSnake = Some (0, [], hamSnake\<lparr>gameOver := True\<rparr>)"
  by code_simp




section \<open>Properties of the coordinate mapping\<close>

subsection \<open>Auxiliary facts\<close>

lemma rotateCell_cells:
  "fitsPanel c \<Longrightarrow> p \<in> panelCells c \<Longrightarrow> rotateCell c p \<in> panelCells c"
  by (cases p) (auto simp: fitsPanel_def panelCells_def rotateCell_def)

lemma rotateCell_inj: "inj_on (rotateCell c) (panelCells c)"
  by (rule inj_onI) (auto simp: rotateCell_def split: if_splits prod.splits)

lemma flipCell_cells: "p \<in> panelCells c \<Longrightarrow> flipCell c p \<in> panelCells c"
  by (cases p) (auto simp: panelCells_def flipCell_def)

lemma flipCell_inj: "inj_on (flipCell c) (panelCells c)"
  by (rule inj_onI) (auto simp: flipCell_def split: if_splits prod.splits)

lemma wireCell_cells: "p \<in> panelCells c \<Longrightarrow> wireCell c p \<in> panelCells c"
  by (cases p) (auto simp: panelCells_def wireCell_def)

lemma wireCell_inj: "inj_on (wireCell c) (panelCells c)"
  by (rule inj_onI) (auto simp: wireCell_def split: if_splits prod.splits)

lemma rowMajor_unique:
  fixes w :: int
  assumes "0 \<le> a" "a < w" "0 \<le> b" "b < w" "y * w + a = z * w + b"
  shows "y = z \<and> a = b"
proof -
  have d1: "(y * w + a) div w = y" and d2: "(z * w + b) div w = z"
    using assms(1-4) by (simp_all add: div_pos_pos_trivial)
  have "(y * w + a) div w = (z * w + b) div w"
    using assms(5) by (rule arg_cong)
  then have "y = z"
    unfolding d1 d2 .
  with assms(5) show ?thesis by simp
qed

lemma rowMajor_inj: "inj_on (rowMajor c) (panelCells c)"
  by (rule inj_onI) (auto simp: rowMajor_def panelCells_def dest: rowMajor_unique)

lemma rowMajor_index:
  assumes "p \<in> panelCells c"
  shows "rowMajor c p \<in> panelIndices c"
proof -
  obtain x y where p: "p = (x, y)" by (cases p)
  with assms have r: "0 \<le> x" "x < MATRIX_WIDTH c" "0 \<le> y" "y + 1 \<le> MATRIX_HEIGHT c"
    by (auto simp: panelCells_def)
  then have "(y + 1) * MATRIX_WIDTH c \<le> MATRIX_HEIGHT c * MATRIX_WIDTH c"
    by (intro mult_right_mono) auto
  with r have "y * MATRIX_WIDTH c + x < MATRIX_WIDTH c * MATRIX_HEIGHT c"
    by (simp add: algebra_simps)
  moreover from r have "0 \<le> y * MATRIX_WIDTH c + x"
    by simp
  ultimately show ?thesis
    by (simp add: p rowMajor_def panelIndices_def)
qed

lemma specMap_inj:
  assumes "fitsPanel c"
  shows "inj_on (specMap c) (panelCells c)"
proof (rule inj_onI)
  fix p q
  assume p: "p \<in> panelCells c" and q: "q \<in> panelCells c" and eq: "specMap c p = specMap c q"
  let ?r = "rotateCell c" and ?f = "flipCell c" and ?w = "wireCell c"
  from p q assms have "?r p \<in> panelCells c" "?r q \<in> panelCells c"
    by (simp_all add: rotateCell_cells)
  moreover from this have "?f (?r p) \<in> panelCells c" "?f (?r q) \<in> panelCells c"
    by (simp_all add: flipCell_cells)
  moreover from this have "?w (?f (?r p)) \<in> panelCells c" "?w (?f (?r q)) \<in> panelCells c"
    by (simp_all add: wireCell_cells)
  moreover from this eq have "?w (?f (?r p)) = ?w (?f (?r q))"
    using rowMajor_inj [of c] by (auto simp: specMap_def dest: inj_onD)
  ultimately have "?r p = ?r q"
    using wireCell_inj [of c] flipCell_inj [of c] by (blast dest: inj_onD)
  with p q show "p = q"
    using rotateCell_inj [of c] by (blast dest: inj_onD)
qed

lemma specMap_index:
  assumes "fitsPanel c" "p \<in> panelCells c"
  shows "specMap c p \<in> panelIndices c"
  using assms
  by (simp add: specMap_def rowMajor_index wireCell_cells flipCell_cells rotateCell_cells)

lemma card_cells_indices:
  assumes "fitsPanel c"
  shows "card (panelCells c) = card (panelIndices c)"
  using assms
  by (simp add: panelCells_def panelIndices_def fitsPanel_def nat_mult_distrib)

lemma specMap_bij:
  assumes "fitsPanel c"
  shows "bij_betw (specMap c) (panelCells c) (panelIndices c)"
proof -
  have sub: "specMap c ` panelCells c \<subseteq> panelIndices c"
    using assms by (auto simp: specMap_index)
  have "card (specMap c ` panelCells c) = card (panelIndices c)"
    using assms by (simp add: card_image specMap_inj card_cells_indices)
  with sub have "specMap c ` panelCells c = panelIndices c"
    by (intro card_subset_eq) (simp_all add: panelIndices_def)
  with specMap_inj [OF assms] show ?thesis
    by (simp add: bij_betw_def)
qed

lemma u8_id: "0 \<le> v \<Longrightarrow> v < 256 \<Longrightarrow> u8 v = v"
  by (simp add: u8_def)

lemma u16_id: "0 \<le> v \<Longrightarrow> v < 65536 \<Longrightarrow> u16 v = v"
  by (simp add: u16_def)

lemma MU_XY_specMap:
  assumes "fitsPanel c" "(x, y) \<in> panelCells c"
  shows "MU_XY c x y = specMap c (x, y)"
proof -
  have "MU_XY c x y = u16 (specMap c (x, y))"
    using assms
    by (auto simp: MU_XY_def specMap_def rowMajor_def wireCell_def flipCell_def rotateCell_def
        fitsPanel_def panelCells_def Let_def u8_id)
  moreover have "specMap c (x, y) \<in> panelIndices c"
    using assms by (rule specMap_index)
  moreover have "MATRIX_WIDTH c * MATRIX_HEIGHT c \<le> 256 * 256"
    using assms(1) by (intro mult_mono) (auto simp: fitsPanel_def)
  ultimately show ?thesis
    by (simp add: panelIndices_def u16_id)
qed

lemma MU_XY_turned_nonsquare:
  "(3, 0) \<in> panelCells panel4x2 \<and> MU_XY panel4x2 3 0 = 15 \<and> 15 \<notin> panelIndices panel4x2"
  by (simp add: panel4x2_def panelCells_def panelIndices_def MU_XY_def u8_def u16_def)

subsection \<open>The mapping is a bijection\<close>

text \<open>
  Claim C7. For every panel that fits (in particular every square panel up to 256 cells a
  side, such as the 8 by 8 panel of the examples), with any rotation, any flips and either
  wiring, \<open>MU_XY\<close> maps the cells \<open>[0, W) \<times> [0, H)\<close> one-to-one onto the indices
  \<open>[0, W * H)\<close>; and with no rotation, no flip and progressive wiring it is
  \<open>y * W + x\<close> on every cell.
\<close>

theorem MU_XY_bijection:
  assumes "fitsPanel c"
  shows "bij_betw (\<lambda>(x, y). MU_XY c x y) (panelCells c) (panelIndices c) \<and>
         (PANEL_ROTATION c \<notin> {90, 180, 270} \<and> \<not> PANEL_FLIP_X c \<and> \<not> PANEL_FLIP_Y c \<and>
          \<not> PANEL_WIRING_SERPENTINE c \<longrightarrow>
            (\<forall>(x, y) \<in> panelCells c. MU_XY c x y = y * MATRIX_WIDTH c + x))"
proof -
  have same: "(case p of (x, y) \<Rightarrow> MU_XY c x y) = specMap c p" if "p \<in> panelCells c" for p
    using that assms by (cases p) (simp add: MU_XY_specMap)
  have "bij_betw (\<lambda>(x, y). MU_XY c x y) (panelCells c) (panelIndices c)"
    using specMap_bij [OF assms] same by (simp cong: bij_betw_cong)
  moreover have "MU_XY c x y = y * MATRIX_WIDTH c + x"
    if "(x, y) \<in> panelCells c" "PANEL_ROTATION c \<notin> {90, 180, 270}" "\<not> PANEL_FLIP_X c"
      "\<not> PANEL_FLIP_Y c" "\<not> PANEL_WIRING_SERPENTINE c" for x y
    using that assms
    by (simp add: MU_XY_specMap specMap_def rowMajor_def wireCell_def flipCell_def rotateCell_def)
  ultimately show ?thesis
    by auto
qed

theorem MU_XY_bijection_witness:
  "fitsPanel panel8turned \<and> fitsPanel panel8 \<and>
   bij_betw (\<lambda>(x, y). MU_XY panel8turned x y) (panelCells panel8turned) (panelIndices panel8turned) \<and>
   bij_betw (\<lambda>(x, y). MU_XY panel8 x y) (panelCells panel8) (panelIndices panel8) \<and>
   (3, 2) \<in> panelCells panel8 \<and> MU_XY panel8 3 2 = 2 * 8 + 3"
proof -
  have a: "fitsPanel panel8turned"
    by (simp add: fitsPanel_def panel8turned_def)
  have b: "fitsPanel panel8"
    by (simp add: fitsPanel_def panel8_def)
  have c: "(3, 2) \<in> panelCells panel8"
    by (simp add: panelCells_def panel8_def)
  have d: "PANEL_ROTATION panel8 \<notin> {90, 180, 270} \<and> \<not> PANEL_FLIP_X panel8 \<and>
      \<not> PANEL_FLIP_Y panel8 \<and> \<not> PANEL_WIRING_SERPENTINE panel8"
    by (simp add: panel8_def)
  have e: "MATRIX_WIDTH panel8 = 8"
    by (simp add: panel8_def)
  from MU_XY_bijection [OF b] c d have "MU_XY panel8 3 2 = 2 * MATRIX_WIDTH panel8 + 3"
    by blast
  with MU_XY_bijection [OF a] MU_XY_bijection [OF b] a b c e show ?thesis
    by simp
qed

section \<open>Properties of the falling stars\<close>

subsection \<open>Auxiliary facts\<close>

lemma length_updateParticle [simp]:
  "length (particles (updateParticle c i s)) = length (particles s)"
  by (simp add: updateParticle_def settle_def Let_def)

lemma length_spawnParticle [simp]:
  "length (particles (spawnParticle rx cc s)) = length (particles s)"
  by (simp add: spawnParticle_def split: option.splits)

lemma length_fold_updateParticle [simp]:
  "length (particles (fold (updateParticle c) is s)) = length (particles s)"
  by (induction "is" arbitrary: s) simp_all

lemma length_physics [simp]: "length (particles (physics c s)) = length (particles s)"
  by (simp add: physics_def)

lemma reachable_length: "reachable c s \<Longrightarrow> length (particles s) = MAX_PARTICLES"
  by (induction rule: reachable.induct) (simp_all add: stars_setup_def)

lemma grid_spawnParticle [simp]: "grid (spawnParticle rx cc s) = grid s"
  by (simp add: spawnParticle_def split: option.splits)

lemma idsInPool_updateParticle:
  "i < MAX_PARTICLES \<Longrightarrow> idsInPool c s \<Longrightarrow> idsInPool c (updateParticle c i s)"
  by (auto simp add: idsInPool_def updateParticle_def settle_def Let_def)

lemma idsInPool_fold:
  "\<forall>i \<in> set is. i < MAX_PARTICLES \<Longrightarrow> idsInPool c s \<Longrightarrow>
   idsInPool c (fold (updateParticle c) is s)"
  by (induction "is" arbitrary: s) (simp_all add: idsInPool_updateParticle)

lemma idsInPool_physics: "idsInPool c s \<Longrightarrow> idsInPool c (physics c s)"
  by (simp add: physics_def idsInPool_fold)

lemma reachable_idsInPool: "reachable c s \<Longrightarrow> idsInPool c s"
proof (induction rule: reachable.induct)
  case (reach_setup s)
  then show ?case by (auto simp add: idsInPool_def stars_setup_def)
next
  case (reach_spawn s rx colorChoice)
  then show ?case by (simp add: idsInPool_def)
next
  case (reach_physics s)
  then show ?case by (simp add: idsInPool_physics)
qed

lemma settledInactive_updateParticle:
  assumes "i < length (particles s)" "i < MAX_PARTICLES" "settledInactive c s"
  shows "settledInactive c (updateParticle c i s)"
  using assms
  apply (auto simp add: settledInactive_def updateParticle_def settle_def Let_def nth_list_update)
  done

lemma settledInactive_fold:
  "\<forall>i \<in> set is. i < length (particles s) \<and> i < MAX_PARTICLES \<Longrightarrow> settledInactive c s \<Longrightarrow>
   settledInactive c (fold (updateParticle c) is s)"
  by (induction "is" arbitrary: s) (simp_all add: settledInactive_updateParticle)

lemma settledInactive_physics:
  "length (particles s) = MAX_PARTICLES \<Longrightarrow> settledInactive c s \<Longrightarrow>
   settledInactive c (physics c s)"
  by (simp add: physics_def settledInactive_fold)

lemma settledInactive_setup: "settledInactive c (stars_setup c s)"
  by (auto simp add: settledInactive_def stars_setup_def)

lemma settledColor_slot:
  "grid s x y \<noteq> 0 \<Longrightarrow> grid s x y \<le> MAX_PARTICLES \<Longrightarrow>
   settledColor s x y = color (particles s ! (grid s x y - 1))"
proof -
  assume a: "grid s x y \<noteq> 0" "grid s x y \<le> MAX_PARTICLES"
  then have "0 \<le> int (grid s x y) - 1" "int (grid s x y) - 1 < 256"
    by (simp_all add: MAX_PARTICLES_def)
  then have "u8 (int (grid s x y) - 1) = int (grid s x y) - 1"
    by (rule u8_id)
  moreover have "nat (int (grid s x y) - 1) = grid s x y - 1"
    by simp
  ultimately show ?thesis
    by (simp add: settledColor_def)
qed

lemma reachable_loop:
  assumes "reachable c s" "0 \<le> rx" "rx < MATRIX_WIDTH c" "colorChoice < 6"
  shows "reachable c (loop c r100 rx colorChoice s)"
  using assms by (auto simp: loop_def intro: reachable.intros)

lemma reachable_runLoop:
  "reachable c s \<Longrightarrow> validDraws c run \<Longrightarrow> reachable c (runLoop c run s)"
  by (induction run arbitrary: s) (auto simp: validDraws_def reachable_loop)

lemma grid_kept_updateParticle:
  "0 < grid s x y \<Longrightarrow> 0 < grid (updateParticle c i s) x y"
  by (auto simp add: updateParticle_def settle_def Let_def)

lemma grid_kept_fold:
  "0 < grid s x y \<Longrightarrow> 0 < grid (fold (updateParticle c) is s) x y"
  by (induction "is" arbitrary: s) (simp_all add: grid_kept_updateParticle)

lemma grid_kept_physics: "0 < grid s x y \<Longrightarrow> 0 < grid (physics c s) x y"
  by (simp add: physics_def grid_kept_fold)

lemma nth_update_any:
  "j < length xs \<Longrightarrow> xs[i := v] ! j = (if i = j then v else xs ! j)"
  by (cases "i = j") simp_all

lemma toInt_of_int [simp]: "toInt (of_int n) = n"
  by (simp add: toInt_def)

lemma columnsInPanel_updateParticle:
  "columnsInPanel c s \<Longrightarrow> columnsInPanel c (updateParticle c i s)"
  by (auto simp add: columnsInPanel_def updateParticle_def settle_def Let_def nth_update_any)

lemma columnsInPanel_fold:
  "columnsInPanel c s \<Longrightarrow> columnsInPanel c (fold (updateParticle c) is s)"
  by (induction "is" arbitrary: s) (simp_all add: columnsInPanel_updateParticle)

lemma columnsInPanel_spawnParticle:
  "columnsInPanel c s \<Longrightarrow> 0 \<le> rx \<Longrightarrow> rx < MATRIX_WIDTH c \<Longrightarrow>
   columnsInPanel c (spawnParticle rx cc s)"
  by (auto simp add: columnsInPanel_def spawnParticle_def nth_update_any split: option.splits)

lemma reachable_columnsInPanel: "reachable c s \<Longrightarrow> columnsInPanel c s"
proof (induction rule: reachable.induct)
  case (reach_setup s)
  then show ?case by (simp add: columnsInPanel_def stars_setup_def)
next
  case (reach_spawn s rx colorChoice)
  then show ?case by (simp add: columnsInPanel_spawnParticle)
next
  case (reach_physics s)
  then show ?case by (simp add: physics_def columnsInPanel_fold)
qed

lemma reachable_startStars: "reachable panel8 startStars"
  unfolding startStars_def
  by (rule reachable.intros) (simp add: zeroStars_def MAX_PARTICLES_def)

subsection \<open>The settled grid and the slots it names\<close>

text \<open>
  Claim C1 says that in every reachable state a cell that is not empty names a slot that
  is not active and whose colour is the one rendered for the cell, also after a respawn.
  \<^verbatim>\<open>spawnParticle\<close> takes the first slot that is not active, and a slot is not active
  from the moment its particle has settled: in \<open>settleRun\<close> slot 0 settles in cell
  (3, 7), which is then rendered red; the spawn of the next pass takes slot 0 again, so the
  cell still names slot 0, the slot is active and the cell is rendered green.
\<close>

theorem settled_slot_respawned_counterexample:
  "reachable panel8 (runLoop panel8 (settleRun @ [(0, 5, 1)]) startStars) \<and>
   (3, 7) \<in> panelCells panel8 \<and>
   grid (runLoop panel8 settleRun startStars) 3 7 = 1 \<and>
   settledColor (runLoop panel8 settleRun startStars) 3 7 = (255, 0, 0) \<and>
   grid (runLoop panel8 (settleRun @ [(0, 5, 1)]) startStars) 3 7 = 1 \<and>
   active (particles (runLoop panel8 (settleRun @ [(0, 5, 1)]) startStars) ! 0) \<and>
   settledColor (runLoop panel8 (settleRun @ [(0, 5, 1)]) startStars) 3 7 = (0, 255, 0) \<and>
   \<not> settledInactive panel8 (runLoop panel8 (settleRun @ [(0, 5, 1)]) startStars)"
proof -
  have "validDraws panel8 (settleRun @ [(0, 5, 1)])"
    by code_simp
  with reachable_startStars
  have "reachable panel8 (runLoop panel8 (settleRun @ [(0, 5, 1)]) startStars)"
    by (rule reachable_runLoop)
  moreover have "(3, 7) \<in> panelCells panel8"
    by (simp add: panelCells_def panel8_def)
  moreover have "grid (runLoop panel8 settleRun startStars) 3 7 = 1 \<and>
      settledColor (runLoop panel8 settleRun startStars) 3 7 = (255, 0, 0)"
    by code_simp
  moreover have "grid (runLoop panel8 (settleRun @ [(0, 5, 1)]) startStars) 3 7 = 1 \<and>
      active (particles (runLoop panel8 (settleRun @ [(0, 5, 1)]) startStars) ! 0) \<and>
      settledColor (runLoop panel8 (settleRun @ [(0, 5, 1)]) startStars) 3 7 = (0, 255, 0)"
    by code_simp
  moreover have "\<not> settledInactive panel8 (runLoop panel8 (settleRun @ [(0, 5, 1)]) startStars)"
    by code_simp
  ultimately show ?thesis
    by simp
qed

text \<open>
  Claim C1 as amended. In every reachable state a cell of the panel that is not empty
  holds the id of a slot of the pool (at most \<^verbatim>\<open>MAX_PARTICLES\<close>, so the slot exists),
  and the colour rendered for the cell is the colour that slot holds now. That the slot is
  not active holds after start-up and is kept by every physics pass from a reachable state;
  a spawn can take the slot again, which makes it active and changes the colour rendered.
\<close>

theorem settled_grid_invariant:
  assumes "reachable c s"
  shows "(\<forall>(x, y) \<in> panelCells c. grid s x y \<noteq> 0 \<longrightarrow>
            grid s x y \<le> MAX_PARTICLES \<and> grid s x y - 1 < length (particles s) \<and>
            settledColor s x y = color (particles s ! (grid s x y - 1))) \<and>
         (settledInactive c s \<longrightarrow> settledInactive c (physics c s)) \<and>
         settledInactive c (stars_setup c s0)"
proof -
  from assms have len: "length (particles s) = MAX_PARTICLES"
    by (rule reachable_length)
  from assms have ids: "idsInPool c s"
    by (rule reachable_idsInPool)
  have "grid s x y \<le> MAX_PARTICLES \<and> grid s x y - 1 < length (particles s) \<and>
      settledColor s x y = color (particles s ! (grid s x y - 1))"
    if "(x, y) \<in> panelCells c" "grid s x y \<noteq> 0" for x y
  proof -
    from ids that(1) have le: "grid s x y \<le> MAX_PARTICLES"
      by (auto simp: idsInPool_def)
    with that(2) len have "grid s x y - 1 < length (particles s)"
      by simp
    with le that(2) show ?thesis
      by (simp add: settledColor_slot)
  qed
  moreover have "settledInactive c (physics c s)" if "settledInactive c s"
    using len that by (rule settledInactive_physics)
  moreover have "settledInactive c (stars_setup c s0)"
    by (rule settledInactive_setup)
  ultimately show ?thesis
    by auto
qed

theorem settled_grid_invariant_witness:
  "reachable panel8 (runLoop panel8 settleRun startStars) \<and>
   (3, 7) \<in> panelCells panel8 \<and>
   grid (runLoop panel8 settleRun startStars) 3 7 = 1 \<and>
   1 \<le> MAX_PARTICLES \<and>
   settledColor (runLoop panel8 settleRun startStars) 3 7 =
     color (particles (runLoop panel8 settleRun startStars) ! 0) \<and>
   settledInactive panel8 (runLoop panel8 settleRun startStars) \<and>
   settledInactive panel8 (physics panel8 (runLoop panel8 settleRun startStars))"
proof -
  have "validDraws panel8 settleRun"
    by code_simp
  with reachable_startStars have r: "reachable panel8 (runLoop panel8 settleRun startStars)"
    by (rule reachable_runLoop)
  have cell: "(3, 7) \<in> panelCells panel8"
    by (simp add: panelCells_def panel8_def)
  have g: "grid (runLoop panel8 settleRun startStars) 3 7 = 1"
    by code_simp
  have i: "settledInactive panel8 (runLoop panel8 settleRun startStars)"
    by code_simp
  from settled_grid_invariant [OF r] cell g
  have "1 \<le> MAX_PARTICLES \<and>
      settledColor (runLoop panel8 settleRun startStars) 3 7 =
        color (particles (runLoop panel8 settleRun startStars) ! (1 - 1))"
    by fastforce
  moreover from settled_grid_invariant [OF r] i
  have "settledInactive panel8 (physics panel8 (runLoop panel8 settleRun startStars))"
    by blast
  ultimately show ?thesis
    using r cell g i by simp
qed

subsection \<open>Owners of settled cells\<close>

text \<open>
  Claim C4 says that a cell, once a settled particle owns it, keeps that owner. The
  physics loop tests the cell below the particle only, and a particle falls more than one
  row in a pass: in \<open>stackRun\<close> three particles fall in column 3, one pass apart. After
  seven passes slot 0 rests in cell (3, 7) and slot 1, stopped above it, owns cell (3, 6).
  In the eighth pass slot 2 comes from row 4 to row 6, finds cell (3, 7) taken, and is
  written into cell (3, 6): the owner of that cell changes from id 2 to id 3.
\<close>

theorem settled_cell_overwritten:
  "reachable panel8 (runLoop panel8 (stackRun @ [(99, 0, 0)]) startStars) \<and>
   grid (runLoop panel8 stackRun startStars) 3 7 = 1 \<and>
   grid (runLoop panel8 stackRun startStars) 3 6 = 2 \<and>
   \<not> active (particles (runLoop panel8 stackRun startStars) ! 1) \<and>
   toInt (part_y (particles (runLoop panel8 stackRun startStars) ! 2)) = 4 \<and>
   grid (runLoop panel8 (stackRun @ [(99, 0, 0)]) startStars) 3 6 = 3"
proof -
  have "validDraws panel8 (stackRun @ [(99, 0, 0)])"
    by code_simp
  with reachable_startStars
  have "reachable panel8 (runLoop panel8 (stackRun @ [(99, 0, 0)]) startStars)"
    by (rule reachable_runLoop)
  moreover have "grid (runLoop panel8 stackRun startStars) 3 7 = 1 \<and>
      grid (runLoop panel8 stackRun startStars) 3 6 = 2 \<and>
      \<not> active (particles (runLoop panel8 stackRun startStars) ! 1) \<and>
      toInt (part_y (particles (runLoop panel8 stackRun startStars) ! 2)) = 4"
    by code_simp
  moreover have "grid (runLoop panel8 (stackRun @ [(99, 0, 0)]) startStars) 3 6 = 3"
    by code_simp
  ultimately show ?thesis
    by simp
qed

end
